theory Spec2Isabelle
  imports Complex_Main "HOL-Library.Word"
begin

unbundle bit_operations_syntax

section \<open>The client networking layer of the raylib/enet sample (client/networking.c)\<close>

text \<open>
  The file keeps its state in globals and talks to enet through a handful of calls.
  The embedding below follows it function by function:
  \<^item> the globals become one record that every function takes and returns;
  \<^item> what the file asks of enet (\<^verbatim>\<open>enet_peer_send\<close>, \<^verbatim>\<open>enet_packet_destroy\<close>) is
    logged in two extra fields of that record, the event that \<^verbatim>\<open>enet_host_service\<close>
    hands back is an argument of \<open>Update\<close>;
  \<^item> a memory access outside an object (a packet's bytes, the \<^verbatim>\<open>Players\<close> array) and a
    float-to-short conversion outside the range of \<^verbatim>\<open>int16_t\<close> are undefined in C; here
    they end the computation with a value of type \<open>undefined_behaviour\<close>;
  \<^item> \<^verbatim>\<open>float\<close> and \<^verbatim>\<open>double\<close> are IEEE 754 binary32 and binary64 values: a finite
    number, an infinity or a NaN, every sum and difference rounded to the nearest value
    of the format of its operands, ties to even (no wider intermediate format). The
    sign of zero is not kept, which no comparison or conversion of this file observes;
    the alignment of the 16-bit accesses at odd addresses is not modelled;
  \<^item> \<^verbatim>\<open>networking.h\<close> is not part of the sources at hand, so the constants it
    declares (\<^verbatim>\<open>MAX_PLAYERS\<close>, the field and player sizes) are parameters, as is the
    byte order of the host.
\<close>

subsection \<open>Parameters: the constants of networking.h and the host\<close>

type_synonym u8 = "8 word"
type_synonym i16 = "16 word"

datatype byte_order = LittleEndian | BigEndian

record platform =
  MAX_PLAYERS :: nat
  FieldSizeWidth :: real
  FieldSizeHeight :: real
  PlayerSize :: real
  host_order :: byte_order

subsection \<open>Floating point\<close>

text \<open>
  A value of a binary format with precision \<open>p\<close> and exponents from \<open>emin\<close> to
  \<open>emax\<close>. \<open>Finite r\<close> is used for the numbers of the format only; the functions
  below are nevertheless defined on every real.
\<close>

datatype fp = Finite real | PlusInf | MinusInf | NaN

text \<open>The integer nearest to \<open>q\<close>; the even one when two are equally near.\<close>

definition round_half_even :: "real \<Rightarrow> int" where
  "round_half_even q =
     (let f = \<lfloor>q\<rfloor>; d = q - of_int f
      in if d < 1 / 2 then f else if d > 1 / 2 then f + 1 else if even f then f else f + 1)"

text \<open>
  Rounding a real result to the format: \<open>u\<close> is the distance of neighbouring numbers
  of the format around \<open>r\<close> (subnormal below \<open>2 powi emin\<close>), and a result that
  reaches \<open>2 powi (emax + 1)\<close> overflows to an infinity.
\<close>

definition fp_round :: "nat \<Rightarrow> int \<Rightarrow> int \<Rightarrow> real \<Rightarrow> fp" where
  "fp_round p emin emax r =
     (if r = 0 then Finite 0
      else
        (let e = max \<lfloor>log 2 \<bar>r\<bar>\<rfloor> emin;
             u = 2 powi (e - int p + 1);
             v = of_int (round_half_even (r / u)) * u
         in if \<bar>v\<bar> \<ge> 2 powi (emax + 1) then (if r > 0 then PlusInf else MinusInf)
            else Finite v))"

definition float_round :: "real \<Rightarrow> fp" where
  "float_round = fp_round 24 (- 126) 127"

definition double_round :: "real \<Rightarrow> fp" where
  "double_round = fp_round 53 (- 1022) 1023"

fun fp_neg :: "fp \<Rightarrow> fp" where
  "fp_neg (Finite a) = Finite (- a)"
| "fp_neg PlusInf = MinusInf"
| "fp_neg MinusInf = PlusInf"
| "fp_neg NaN = NaN"

text \<open>\<^verbatim>\<open>a + b\<close> in the format whose rounding is \<open>rnd\<close>.\<close>

fun fp_add :: "(real \<Rightarrow> fp) \<Rightarrow> fp \<Rightarrow> fp \<Rightarrow> fp" where
  "fp_add rnd NaN b = NaN"
| "fp_add rnd a NaN = NaN"
| "fp_add rnd PlusInf MinusInf = NaN"
| "fp_add rnd MinusInf PlusInf = NaN"
| "fp_add rnd PlusInf b = PlusInf"
| "fp_add rnd a PlusInf = PlusInf"
| "fp_add rnd MinusInf b = MinusInf"
| "fp_add rnd a MinusInf = MinusInf"
| "fp_add rnd (Finite a) (Finite b) = rnd (a + b)"

definition fp_sub :: "(real \<Rightarrow> fp) \<Rightarrow> fp \<Rightarrow> fp \<Rightarrow> fp" where
  "fp_sub rnd a b = fp_add rnd a (fp_neg b)"

text \<open>\<^verbatim>\<open>a < b\<close>; \<^verbatim>\<open>a > b\<close> is \<open>fp_less b a\<close>. A comparison with a NaN is false.\<close>

fun fp_less :: "fp \<Rightarrow> fp \<Rightarrow> bool" where
  "fp_less NaN b = False"
| "fp_less a NaN = False"
| "fp_less a MinusInf = False"
| "fp_less PlusInf b = False"
| "fp_less MinusInf b = True"
| "fp_less a PlusInf = True"
| "fp_less (Finite a) (Finite b) = (a < b)"

subsection \<open>Data\<close>

text \<open>The \<^verbatim>\<open>Vector2\<close> of raylib: two floats.\<close>

record Vector2 =
  x :: fp
  y :: fp

record RemotePlayer =
  Active :: bool
  Position :: Vector2

text \<open>
  An enet packet is its payload: \<^verbatim>\<open>packet->data\<close> points to exactly
  \<^verbatim>\<open>packet->dataLength\<close> bytes.
\<close>

type_synonym ENetPacket = "u8 list"

definition dataLength :: "ENetPacket \<Rightarrow> nat" where
  "dataLength packet = length packet"

datatype undefined_behaviour =
    PacketReadPastEnd nat
  | PlayersIndexOutOfBounds int
  | ShortCastOutOfRange int
  | ShortCastNotFinite

text \<open>The enum \<^verbatim>\<open>NetworkCommands\<close>; a command read from a packet is the byte itself.\<close>

definition AcceptPlayer :: u8 where "AcceptPlayer = 1"
definition AddPlayer :: u8 where "AddPlayer = 2"
definition RemovePlayer :: u8 where "RemovePlayer = 3"
definition UpdatePlayer :: u8 where "UpdatePlayer = 4"
definition UpdateInput :: u8 where "UpdateInput = 5"

subsection \<open>Reading from a packet\<close>

text \<open>
  \<^verbatim>\<open>if (*offset > packet->dataLength) return 0;\<close> and then \<^verbatim>\<open>ptr[*offset]\<close>.
  The result is the value read and the new offset.
\<close>

definition ReadByte :: "ENetPacket \<Rightarrow> nat \<Rightarrow> undefined_behaviour + (u8 \<times> nat)" where
  "ReadByte packet offset =
     (if offset > dataLength packet then Inr (0, offset)
      else if offset < length packet then Inr (packet ! offset, offset + 1)
      else Inl (PacketReadPastEnd offset))"

text \<open>\<^verbatim>\<open>*(int16_t*)data\<close> and \<^verbatim>\<open>*(int16_t*)(buffer + 1) = v\<close>: two bytes in host order.\<close>

definition short_of_bytes :: "byte_order \<Rightarrow> u8 \<Rightarrow> u8 \<Rightarrow> i16" where
  "short_of_bytes e b0 b1 =
     (case e of
        LittleEndian \<Rightarrow> (ucast b0) OR (push_bit 8 (ucast b1))
      | BigEndian \<Rightarrow> (ucast b1) OR (push_bit 8 (ucast b0)))"

definition bytes_of_short :: "byte_order \<Rightarrow> i16 \<Rightarrow> u8 list" where
  "bytes_of_short e v =
     (case e of
        LittleEndian \<Rightarrow> [ucast v, ucast (drop_bit 8 v)]
      | BigEndian \<Rightarrow> [ucast (drop_bit 8 v), ucast v])"

text \<open>
  The guard is the same as in \<open>ReadByte\<close>; the two bytes read are those at
  \<open>offset\<close> and \<open>offset + 1\<close>.
\<close>

definition ReadShort :: "platform \<Rightarrow> ENetPacket \<Rightarrow> nat \<Rightarrow> undefined_behaviour + (i16 \<times> nat)" where
  "ReadShort h packet offset =
     (if offset > dataLength packet then Inr (0, offset)
      else if offset + 1 < length packet
        then Inr (short_of_bytes (host_order h) (packet ! offset) (packet ! (offset + 1)), offset + 2)
      else if offset < length packet then Inl (PacketReadPastEnd (offset + 1))
      else Inl (PacketReadPastEnd offset))"

text \<open>\<^verbatim>\<open>pos.x = ReadShort(...); pos.y = ReadShort(...);\<close>: short to float is exact.\<close>

definition ReadPosition :: "platform \<Rightarrow> ENetPacket \<Rightarrow> nat \<Rightarrow> undefined_behaviour + (Vector2 \<times> nat)" where
  "ReadPosition h packet offset =
     (case ReadShort h packet offset of
        Inl ub \<Rightarrow> Inl ub
      | Inr (sx, offset1) \<Rightarrow>
          (case ReadShort h packet offset1 of
             Inl ub \<Rightarrow> Inl ub
           | Inr (sy, offset2) \<Rightarrow>
               Inr (\<lparr>x = Finite (real_of_int (sint sx)),
                     y = Finite (real_of_int (sint sy))\<rparr>, offset2)))"

subsection \<open>Writing the input packet\<close>

text \<open>
  The cast \<^verbatim>\<open>(int16_t)f\<close> of a float: the fraction is dropped (towards zero). It is
  undefined for a result outside the range of \<^verbatim>\<open>int16_t\<close>, an infinity and a NaN.
\<close>

definition float_to_int :: "real \<Rightarrow> int" where
  "float_to_int r = (if r < 0 then \<lceil>r\<rceil> else \<lfloor>r\<rfloor>)"

definition float_to_short :: "fp \<Rightarrow> undefined_behaviour + i16" where
  "float_to_short f =
     (case f of
        Finite r \<Rightarrow>
          (let i = float_to_int r
           in if - 32768 \<le> i \<and> i \<le> 32767 then Inr (word_of_int i)
              else Inl (ShortCastOutOfRange i))
      | PlusInf \<Rightarrow> Inl ShortCastNotFinite
      | MinusInf \<Rightarrow> Inl ShortCastNotFinite
      | NaN \<Rightarrow> Inl ShortCastNotFinite)"

text \<open>
  Lines 243 to 246 of \<open>Update\<close>: the five bytes of the buffer, the command first.
\<close>

definition writeUpdateInput :: "platform \<Rightarrow> Vector2 \<Rightarrow> undefined_behaviour + ENetPacket" where
  "writeUpdateInput h pos =
     (case float_to_short (x pos) of
        Inl ub \<Rightarrow> Inl ub
      | Inr sx \<Rightarrow>
          (case float_to_short (y pos) of
             Inl ub \<Rightarrow> Inl ub
           | Inr sy \<Rightarrow>
               Inr (UpdateInput # bytes_of_short (host_order h) sx @ bytes_of_short (host_order h) sy)))"

subsection \<open>The globals\<close>

text \<open>
  \<^verbatim>\<open>server\<close> is a pointer: \<open>None\<close> is \<^verbatim>\<open>NULL\<close>. \<open>sent\<close> lists the packets given to
  \<^verbatim>\<open>enet_peer_send\<close>, \<open>destroyed\<close> those given to \<^verbatim>\<open>enet_packet_destroy\<close>, oldest
  first. \<^verbatim>\<open>address\<close> and \<^verbatim>\<open>client\<close> are only written by \<^verbatim>\<open>Connect\<close> and
  \<^verbatim>\<open>Disconnect\<close>, which are not modelled.
\<close>

type_synonym ENetPeer = nat

record globals =
  LocalPlayerId :: int
  server :: "ENetPeer option"
  LastInputSend :: fp
  Players :: "RemotePlayer list"
  sent :: "ENetPacket list"
  destroyed :: "ENetPacket list"

text \<open>
  \<^verbatim>\<open>double InputUpdateInterval = 1.0f / 20.0f;\<close> is never assigned again. The quotient
  is a float, the float nearest to 1/20; widening it to a double changes nothing.
\<close>

definition InputUpdateInterval :: fp where
  "InputUpdateInterval = float_round (1 / 20)"

text \<open>The values the globals are initialised with, for a table of \<open>MAX_PLAYERS\<close> slots.\<close>

definition initial_globals :: "platform \<Rightarrow> globals" where
  "initial_globals h =
     \<lparr>LocalPlayerId = - 1, server = None, LastInputSend = Finite (- 100),
      Players = replicate (MAX_PLAYERS h)
                  \<lparr>Active = False, Position = \<lparr>x = Finite 0, y = Finite 0\<rparr>\<rparr>,
      sent = [], destroyed = []\<rparr>"

text \<open>\<^verbatim>\<open>Players[i]\<close> read, and \<^verbatim>\<open>Players[i].field = ...\<close>; the array has its length.\<close>

definition get_Player :: "globals \<Rightarrow> int \<Rightarrow> undefined_behaviour + RemotePlayer" where
  "get_Player s i =
     (if 0 \<le> i \<and> i < int (length (Players s)) then Inr (Players s ! nat i)
      else Inl (PlayersIndexOutOfBounds i))"

definition set_Player ::
  "globals \<Rightarrow> int \<Rightarrow> (RemotePlayer \<Rightarrow> RemotePlayer) \<Rightarrow> undefined_behaviour + globals" where
  "set_Player s i f =
     (if 0 \<le> i \<and> i < int (length (Players s))
      then Inr (s\<lparr>Players := (Players s)[nat i := f (Players s ! nat i)]\<rparr>)
      else Inl (PlayersIndexOutOfBounds i))"

subsection \<open>The handlers of the server's commands\<close>

text \<open>
  \<^verbatim>\<open>int remotePlayer = ReadByte(packet, offset);\<close> is \<open>uint\<close> of the byte. Each handler
  returns the globals; the offset it leaves behind is not used by its caller.
\<close>

definition HandleAddPlayer ::
  "platform \<Rightarrow> ENetPacket \<Rightarrow> nat \<Rightarrow> globals \<Rightarrow> undefined_behaviour + globals" where
  "HandleAddPlayer h packet offset s =
     (case ReadByte packet offset of
        Inl ub \<Rightarrow> Inl ub
      | Inr (b, offset1) \<Rightarrow>
          (let remotePlayer = uint b
           in if remotePlayer \<ge> int (MAX_PLAYERS h) \<or> remotePlayer = LocalPlayerId s then Inr s
              else
                (case set_Player s remotePlayer (\<lambda>p. p\<lparr>Active := True\<rparr>) of
                   Inl ub \<Rightarrow> Inl ub
                 | Inr s1 \<Rightarrow>
                     (case ReadPosition h packet offset1 of
                        Inl ub \<Rightarrow> Inl ub
                      | Inr (pos, offset2) \<Rightarrow>
                          set_Player s1 remotePlayer (\<lambda>p. p\<lparr>Position := pos\<rparr>)))))"

definition HandleRemovePlayer ::
  "platform \<Rightarrow> ENetPacket \<Rightarrow> nat \<Rightarrow> globals \<Rightarrow> undefined_behaviour + globals" where
  "HandleRemovePlayer h packet offset s =
     (case ReadByte packet offset of
        Inl ub \<Rightarrow> Inl ub
      | Inr (b, offset1) \<Rightarrow>
          (let remotePlayer = uint b
           in if remotePlayer \<ge> int (MAX_PLAYERS h) \<or> remotePlayer = LocalPlayerId s then Inr s
              else set_Player s remotePlayer (\<lambda>p. p\<lparr>Active := False\<rparr>)))"

text \<open>The third operand of \<^verbatim>\<open>||\<close> reads the slot only when the first two are false.\<close>

definition HandleUpdatePlayer ::
  "platform \<Rightarrow> ENetPacket \<Rightarrow> nat \<Rightarrow> globals \<Rightarrow> undefined_behaviour + globals" where
  "HandleUpdatePlayer h packet offset s =
     (case ReadByte packet offset of
        Inl ub \<Rightarrow> Inl ub
      | Inr (b, offset1) \<Rightarrow>
          (let remotePlayer = uint b
           in if remotePlayer \<ge> int (MAX_PLAYERS h) \<or> remotePlayer = LocalPlayerId s then Inr s
              else
                (case get_Player s remotePlayer of
                   Inl ub \<Rightarrow> Inl ub
                 | Inr p \<Rightarrow>
                     if \<not> Active p then Inr s
                     else
                       (case ReadPosition h packet offset1 of
                          Inl ub \<Rightarrow> Inl ub
                        | Inr (pos, offset2) \<Rightarrow>
                            set_Player s remotePlayer (\<lambda>p. p\<lparr>Position := pos\<rparr>)))))"

subsection \<open>One frame: Update\<close>

text \<open>
  What \<^verbatim>\<open>enet_host_service(client, &Event, 0)\<close> hands back. \<open>ENET_EVENT_TYPE_NONE\<close>
  stands for a call that does not return a positive number; the event was zeroed
  before the call and the \<^verbatim>\<open>switch\<close> is not entered. \<open>ENET_EVENT_TYPE_CONNECT\<close>
  stands for every type of event the \<^verbatim>\<open>switch\<close> has no case for.
\<close>

datatype ENetEvent =
    ENET_EVENT_TYPE_NONE
  | ENET_EVENT_TYPE_CONNECT
  | ENET_EVENT_TYPE_DISCONNECT
  | ENET_EVENT_TYPE_RECEIVE ENetPacket

text \<open>
  Lines 240 to 259: the throttled send of the local player's position. The test
  \<^verbatim>\<open>now - LastInputSend > InputUpdateInterval\<close> subtracts and compares doubles.
\<close>

definition Update_send :: "platform \<Rightarrow> fp \<Rightarrow> globals \<Rightarrow> undefined_behaviour + globals" where
  "Update_send h now s =
     (if LocalPlayerId s \<ge> 0 \<and>
         fp_less InputUpdateInterval (fp_sub double_round now (LastInputSend s)) then
        (case get_Player s (LocalPlayerId s) of
           Inl ub \<Rightarrow> Inl ub
         | Inr p \<Rightarrow>
             (case writeUpdateInput h (Position p) of
                Inl ub \<Rightarrow> Inl ub
              | Inr buffer \<Rightarrow> Inr (s\<lparr>sent := sent s @ [buffer], LastInputSend := now\<rparr>)))
      else Inr s)"

text \<open>\<^verbatim>\<open>enet_packet_destroy(Event.packet);\<close>\<close>

definition enet_packet_destroy :: "ENetPacket \<Rightarrow> globals \<Rightarrow> globals" where
  "enet_packet_destroy packet s = s\<lparr>destroyed := destroyed s @ [packet]\<rparr>"

text \<open>
  Lines 284 to 310, the branch \<^verbatim>\<open>LocalPlayerId == -1\<close>. The result says whether the
  \<^verbatim>\<open>break\<close> of line 295 was taken, which leaves the \<^verbatim>\<open>switch\<close> at once.
\<close>

definition Update_not_accepted ::
  "platform \<Rightarrow> ENetPacket \<Rightarrow> u8 \<Rightarrow> nat \<Rightarrow> globals \<Rightarrow> undefined_behaviour + (bool \<times> globals)" where
  "Update_not_accepted h packet command offset s =
     (if command = AcceptPlayer then
        (case ReadByte packet offset of
           Inl ub \<Rightarrow> Inl ub
         | Inr (b, offset1) \<Rightarrow>
             (let s1 = s\<lparr>LocalPlayerId := uint b\<rparr>
              in if LocalPlayerId s1 < 0 \<or> LocalPlayerId s1 > int (MAX_PLAYERS h)
                 then Inr (True, s1\<lparr>LocalPlayerId := - 1\<rparr>)
                 else
                   (let s2 = s1\<lparr>LastInputSend := fp_neg InputUpdateInterval\<rparr>
                    in case set_Player s2 (LocalPlayerId s2) (\<lambda>p. p\<lparr>Active := True\<rparr>) of
                         Inl ub \<Rightarrow> Inl ub
                       | Inr s3 \<Rightarrow>
                           (case set_Player s3 (LocalPlayerId s3)
                                   (\<lambda>p. p\<lparr>Position := \<lparr>x = Finite 100, y = Finite 100\<rparr>\<rparr>) of
                              Inl ub \<Rightarrow> Inl ub
                            | Inr s4 \<Rightarrow> Inr (False, s4)))))
      else Inr (False, s))"

text \<open>Lines 314 to 327: the \<^verbatim>\<open>switch\<close> on the command, which has no default case.\<close>

definition Update_accepted ::
  "platform \<Rightarrow> ENetPacket \<Rightarrow> u8 \<Rightarrow> nat \<Rightarrow> globals \<Rightarrow> undefined_behaviour + globals" where
  "Update_accepted h packet command offset s =
     (if command = AddPlayer then HandleAddPlayer h packet offset s
      else if command = RemovePlayer then HandleRemovePlayer h packet offset s
      else if command = UpdatePlayer then HandleUpdatePlayer h packet offset s
      else Inr s)"

text \<open>
  Lines 271 to 332, the case \<^verbatim>\<open>ENET_EVENT_TYPE_RECEIVE\<close>. The packet is destroyed at the
  end of the block; the two \<^verbatim>\<open>break\<close>s before it (lines 275 and 295) skip that.
\<close>

definition Update_receive ::
  "platform \<Rightarrow> ENetPacket \<Rightarrow> globals \<Rightarrow> undefined_behaviour + globals" where
  "Update_receive h packet s =
     (if dataLength packet < 1 then Inr s
      else
        (case ReadByte packet 0 of
           Inl ub \<Rightarrow> Inl ub
         | Inr (command, offset) \<Rightarrow>
             if LocalPlayerId s = - 1 then
               (case Update_not_accepted h packet command offset s of
                  Inl ub \<Rightarrow> Inl ub
                | Inr (broke, s1) \<Rightarrow> if broke then Inr s1 else Inr (enet_packet_destroy packet s1))
             else
               (case Update_accepted h packet command offset s of
                  Inl ub \<Rightarrow> Inl ub
                | Inr s1 \<Rightarrow> Inr (enet_packet_destroy packet s1))))"

text \<open>Lines 262 to 340: the \<^verbatim>\<open>switch\<close> on the type of the event, if there is one.\<close>

definition Update_event :: "platform \<Rightarrow> ENetEvent \<Rightarrow> globals \<Rightarrow> undefined_behaviour + globals" where
  "Update_event h Event s =
     (case Event of
        ENET_EVENT_TYPE_NONE \<Rightarrow> Inr s
      | ENET_EVENT_TYPE_CONNECT \<Rightarrow> Inr s
      | ENET_EVENT_TYPE_RECEIVE packet \<Rightarrow> Update_receive h packet s
      | ENET_EVENT_TYPE_DISCONNECT \<Rightarrow> Inr (s\<lparr>server := None, LocalPlayerId := - 1\<rparr>))"

definition Update :: "platform \<Rightarrow> fp \<Rightarrow> ENetEvent \<Rightarrow> globals \<Rightarrow> undefined_behaviour + globals" where
  "Update h now Event s =
     (if server s = None then Inr s
      else
        (case Update_send h now s of
           Inl ub \<Rightarrow> Inl ub
         | Inr s1 \<Rightarrow> Update_event h Event s1))"

text \<open>Several frames in a row at the same time \<open>now\<close>, one event each.\<close>

fun Updates :: "platform \<Rightarrow> fp \<Rightarrow> ENetEvent list \<Rightarrow> globals \<Rightarrow> undefined_behaviour + globals" where
  "Updates h now [] s = Inr s"
| "Updates h now (Event # Events) s =
     (case Update h now Event s of
        Inl ub \<Rightarrow> Inl ub
      | Inr s1 \<Rightarrow> Updates h now Events s1)"

subsection \<open>Moving the local player\<close>

text \<open>\<^verbatim>\<open>Vector2Add\<close> of raymath adds the components, as floats.\<close>

definition Vector2Add :: "Vector2 \<Rightarrow> Vector2 \<Rightarrow> Vector2" where
  "Vector2Add v1 v2 =
     \<lparr>x = fp_add float_round (x v1) (x v2), y = fp_add float_round (y v1) (y v2)\<rparr>"

text \<open>
  \<^verbatim>\<open>FieldSizeWidth - PlayerSize\<close> as the float it is compared with and assigned to a
  position: the difference of two integer constants converted to float, or the
  difference of two float constants.
\<close>

definition field_limit :: "real \<Rightarrow> real \<Rightarrow> fp" where
  "field_limit field player = float_round (field - player)"

text \<open>Lines 384 to 394: the four tests in the order of the source.\<close>

definition keep_in_field :: "platform \<Rightarrow> Vector2 \<Rightarrow> Vector2" where
  "keep_in_field h pos =
     (let p1 = (if fp_less (x pos) (Finite 0) then pos\<lparr>x := Finite 0\<rparr> else pos);
          p2 = (if fp_less (y p1) (Finite 0) then p1\<lparr>y := Finite 0\<rparr> else p1);
          p3 = (if fp_less (field_limit (FieldSizeWidth h) (PlayerSize h)) (x p2)
                then p2\<lparr>x := field_limit (FieldSizeWidth h) (PlayerSize h)\<rparr> else p2);
          p4 = (if fp_less (field_limit (FieldSizeHeight h) (PlayerSize h)) (y p3)
                then p3\<lparr>y := field_limit (FieldSizeHeight h) (PlayerSize h)\<rparr> else p3)
      in p4)"


definition UpdateLocalPlayer ::
  "platform \<Rightarrow> Vector2 \<Rightarrow> globals \<Rightarrow> undefined_behaviour + globals" where
  "UpdateLocalPlayer h movementDelta s =
     (if LocalPlayerId s < 0 then Inr s
      else set_Player s (LocalPlayerId s)
             (\<lambda>p. p\<lparr>Position := keep_in_field h (Vector2Add (Position p) movementDelta)\<rparr>))"

text \<open>
  The globals are well formed when the table has its \<open>MAX_PLAYERS\<close> slots, as the
  declaration \<^verbatim>\<open>RemotePlayer Players[MAX_PLAYERS]\<close> says.
\<close>

definition table_ok :: "platform \<Rightarrow> globals \<Rightarrow> bool" where
  "table_ok h s = (length (Players s) = MAX_PLAYERS h)"

text \<open>A host for the examples: eight players, a field of 800 by 600, players of size 32.\<close>

definition example_host :: platform where
  "example_host =
     \<lparr>MAX_PLAYERS = 8, FieldSizeWidth = 800, FieldSizeHeight = 600, PlayerSize = 32,
      host_order = LittleEndian\<rparr>"

text \<open>The second state differs from the first in the player table at most.\<close>

definition only_Players_differ :: "globals \<Rightarrow> globals \<Rightarrow> bool" where
  "only_Players_differ s s' =
     (s' = s\<lparr>Players := Players s'\<rparr> \<and> length (Players s') = length (Players s))"

text \<open>
  Two states of that host: after \<^verbatim>\<open>Connect\<close>, before the server's answer; and once
  the server has accepted the client as player 1.
\<close>

definition example_unjoined :: globals where
  "example_unjoined = (initial_globals example_host)\<lparr>server := Some 0\<rparr>"

definition example_joined :: globals where
  "example_joined =
     \<lparr>LocalPlayerId = 1, server = Some 0,
      LastInputSend = Finite (- (13421773 / 268435456)),
      Players = (replicate 8 \<lparr>Active = False, Position = \<lparr>x = Finite 0, y = Finite 0\<rparr>\<rparr>)
                  [1 := \<lparr>Active = True, Position = \<lparr>x = Finite 100, y = Finite 100\<rparr>\<rparr>],
      sent = [], destroyed = [[1, 1]]\<rparr>"

text \<open>Later in that session: the last input packet went out at time 5.\<close>

definition example_playing :: globals where
  "example_playing = example_joined\<lparr>LastInputSend := Finite 5, sent := [[5, 100, 0, 100, 0]]\<rparr>"

section \<open>Properties\<close>

subsection \<open>Unfolding and evaluation\<close>

lemma replicate_numeral: "replicate (numeral k) v = v # replicate (pred_numeral k) v"
  by (simp add: numeral_eq_Suc)

lemma list_update_Cons_numeral: "(v # vs)[numeral k := w] = v # vs[pred_numeral k := w]"
  by (simp add: numeral_eq_Suc)

lemmas example_defs = example_host_def initial_globals_def example_unjoined_def example_joined_def
  replicate_numeral list_update_Cons_numeral

lemmas command_defs = AcceptPlayer_def AddPlayer_def RemovePlayer_def UpdatePlayer_def UpdateInput_def

lemmas Update_defs = Update_def Update_event_def Update_send_def Update_receive_def Update_not_accepted_def
  Update_accepted_def enet_packet_destroy_def

lemmas Handle_defs = HandleAddPlayer_def HandleRemovePlayer_def HandleUpdatePlayer_def

lemmas Read_defs = ReadByte_def ReadShort_def ReadPosition_def dataLength_def

lemmas Player_defs = set_Player_def get_Player_def

lemmas write_defs = writeUpdateInput_def float_to_short_def float_to_int_def bytes_of_short_def
  short_of_bytes_def

subsection \<open>Rounding\<close>

lemma powr_two_of_int: "(2::real) powr (of_int e) = 2 powi e"
  by (rule powr_real_of_int') simp_all

lemma floor_log2_bounds:
  assumes "0 < r"
  shows "2 powi \<lfloor>log 2 r\<rfloor> \<le> r \<and> r < 2 powi (\<lfloor>log 2 r\<rfloor> + 1)"
proof -
  have "2 powr (of_int \<lfloor>log 2 r\<rfloor>) \<le> r \<and> r < 2 powr (of_int \<lfloor>log 2 r\<rfloor> + 1)"
    using assms floor_log_eq_powr_iff [of r 2 "\<lfloor>log 2 r\<rfloor>"] by simp
  moreover have "(2::real) powr (of_int \<lfloor>log 2 r\<rfloor> + 1) = 2 powi (\<lfloor>log 2 r\<rfloor> + 1)"
    using powr_two_of_int [of "\<lfloor>log 2 r\<rfloor> + 1"] by simp
  ultimately show ?thesis
    by (simp add: powr_two_of_int)
qed

lemma floor_log2_eq:
  assumes "2 powi e \<le> r" and "r < 2 powi (e + 1)"
  shows "\<lfloor>log 2 r\<rfloor> = e"
proof -
  have "0 < (2::real) powi e" by simp
  with assms(1) have pos: "0 < r" by linarith
  have "(2::real) powr (of_int e + 1) = 2 powi (e + 1)"
    using powr_two_of_int [of "e + 1"] by simp
  then show ?thesis
    using pos assms by (simp add: floor_log_eq_powr_iff powr_two_of_int)
qed

lemma round_half_even_le: "of_int (round_half_even q) \<le> q + 1 / 2"
  unfolding round_half_even_def Let_def by (auto; linarith)

lemma round_half_even_ge: "q - 1 / 2 \<le> of_int (round_half_even q)"
  unfolding round_half_even_def Let_def by (auto; linarith)

lemma round_half_even_nonneg: "0 \<le> q \<Longrightarrow> 0 \<le> round_half_even q"
  unfolding round_half_even_def Let_def by (auto; linarith)

lemma round_half_even_nonpos: "q \<le> 0 \<Longrightarrow> round_half_even q \<le> 0"
  unfolding round_half_even_def Let_def by (auto; linarith)

lemma InputUpdateInterval_eq: "InputUpdateInterval = Finite (13421773 / 268435456)"
proof -
  have "\<lfloor>log 2 (1 / 20 :: real)\<rfloor> = - 5"
    by (rule floor_log2_eq) simp_all
  then show ?thesis
    by (simp add: InputUpdateInterval_def float_round_def fp_round_def round_half_even_def Let_def)
qed


lemma double_round_nonpos:
  assumes "d \<le> 0"
  shows "double_round d = MinusInf \<or> (\<exists>v. double_round d = Finite v \<and> v \<le> 0)"
proof (cases "d = 0")
  case True
  then show ?thesis by (simp add: double_round_def fp_round_def)
next
  case False
  define u :: real where "u = 2 powi (max \<lfloor>log 2 \<bar>d\<bar>\<rfloor> (- 1022) - int 53 + 1)"
  have u: "0 < u" by (simp add: u_def)
  have "d / u \<le> 0" using assms u by (simp add: divide_nonpos_pos)
  then have "round_half_even (d / u) \<le> 0" by (rule round_half_even_nonpos)
  then have "of_int (round_half_even (d / u)) * u \<le> 0"
    using u by (simp add: mult_nonpos_nonneg)
  then show ?thesis
    using False assms by (simp add: double_round_def fp_round_def Let_def u_def)
qed

lemma double_round_small:
  assumes pos: "0 < d" and small: "d \<le> 1 / 20"
  shows "\<exists>v. double_round d = Finite v \<and> 0 \<le> v \<and> v < 13421773 / 268435456"
proof -
  define e where "e = max \<lfloor>log 2 \<bar>d\<bar>\<rfloor> (- 1022)"
  define u :: real where "u = 2 powi (e - int 53 + 1)"
  define v where "v = of_int (round_half_even (d / u)) * u"
  have u: "0 < u" by (simp add: u_def)
  have "2 powi \<lfloor>log 2 d\<rfloor> \<le> d"
    using floor_log2_bounds [OF pos] by simp
  also have "d < 2 powi (- 4)"
    using small by simp
  finally have lt: "2 powi \<lfloor>log 2 d\<rfloor> < (2::real) powi (- 4)" .
  have "\<lfloor>log 2 d\<rfloor> < - 4"
  proof (rule ccontr)
    assume "\<not> \<lfloor>log 2 d\<rfloor> < - 4"
    then have "(2::real) powi (- 4) \<le> 2 powi \<lfloor>log 2 d\<rfloor>"
      by (intro power_int_increasing) simp_all
    with lt show False by simp
  qed
  then have "e \<le> - 5"
    using pos by (simp add: e_def)
  then have "u \<le> 2 powi (- 57)"
    unfolding u_def by (intro power_int_increasing) simp_all
  then have u57: "u \<le> 1 / 2 ^ 57"
    by (simp add: field_simps)
  have "0 \<le> round_half_even (d / u)"
    using pos u by (intro round_half_even_nonneg) simp
  then have v0: "0 \<le> v"
    using u by (simp add: v_def)
  have "v \<le> (d / u + 1 / 2) * u"
    unfolding v_def using u round_half_even_le [of "d / u"]
    by (intro mult_right_mono) simp_all
  also have "\<dots> = d + u / 2"
    using u by (simp add: field_simps)
  also have "\<dots> \<le> 1 / 20 + (1 / 2 ^ 57) / 2"
    using small u57 by simp
  also have "\<dots> < 13421773 / 268435456"
    by simp
  finally have v1: "v < 13421773 / 268435456" .
  then have "\<bar>v\<bar> < 2 powi (1023 + 1)"
  proof -
    have "(1::real) \<le> 2 powi (1023 + 1)" by (simp add: one_le_power)
    with v1 v0 show ?thesis by simp
  qed
  then have "double_round d = Finite v"
    using pos by (simp add: double_round_def fp_round_def Let_def v_def u_def e_def)
  with v0 v1 show ?thesis by blast
qed

lemma not_due_if_short:
  assumes "d \<le> 1 / 20"
  shows "\<not> fp_less InputUpdateInterval (double_round d)"
proof (cases "0 < d")
  case True
  from double_round_small [OF True assms] show ?thesis
    by (auto simp: InputUpdateInterval_eq)
next
  case False
  then have "d \<le> 0" by simp
  from double_round_nonpos [OF this] show ?thesis
    by (auto simp: InputUpdateInterval_eq)
qed


lemma due_if_long:
  assumes long: "13421773 / 268435456 + 1 / 2 ^ 57 \<le> d"
  shows "fp_less InputUpdateInterval (double_round d)"
proof -
  define L where "L = \<lfloor>log 2 d\<rfloor>"
  define u :: real where "u = 2 powi (L - int 53 + 1)"
  define v where "v = of_int (round_half_even (d / u)) * u"
  have pos: "0 < d" using long by (simp add: add_pos_pos order_less_le_trans)
  have u: "0 < u" by (simp add: u_def)
  have lo: "2 powi L \<le> d" and hi: "d < 2 powi (L + 1)"
    using floor_log2_bounds [OF pos] by (simp_all add: L_def)
  have L5: "- 5 \<le> L"
  proof (rule ccontr)
    assume "\<not> - 5 \<le> L"
    then have "(2::real) powi (L + 1) \<le> 2 powi (- 5)"
      by (intro power_int_increasing) simp_all
    with hi long show False by simp
  qed
  then have e: "max \<lfloor>log 2 \<bar>d\<bar>\<rfloor> (- 1022) = L"
    using pos by (simp add: L_def)
  have "(d / u - 1 / 2) * u \<le> v"
    unfolding v_def using u round_half_even_ge [of "d / u"]
    by (intro mult_right_mono) simp_all
  moreover have "(d / u - 1 / 2) * u = d - u / 2"
    using u by (simp add: field_simps)
  ultimately have vd: "d - u / 2 \<le> v" by simp
  have big: "13421773 / 268435456 < v"
  proof (cases "L = - 5")
    case True
    then have "u = 1 / 2 ^ 57" by (simp add: u_def field_simps)
    with vd long show ?thesis by simp
  next
    case False
    with L5 have "- 4 \<le> L" by simp
    then have "(2::real) powi (- 4) \<le> 2 powi L"
      by (intro power_int_increasing) simp_all
    with lo have d16: "1 / 16 \<le> d" by simp
    have "(2::real) powi (L + (- 52)) = 2 powi L * 2 powi (- 52)"
      by (rule power_int_add) simp
    then have "u = 2 powi L * (1 / 2 ^ 52)"
      by (simp add: u_def field_simps)
    also have "\<dots> \<le> d * (1 / 2 ^ 52)"
      using lo by (intro mult_right_mono) simp_all
    finally have "u \<le> d * (1 / 2 ^ 52)" .
    with vd have "d * (1 - 1 / 2 ^ 53) \<le> v"
      by (simp add: field_simps)
    moreover have "1 / 16 * (1 - 1 / 2 ^ 53) \<le> d * (1 - 1 / 2 ^ 53)"
      using d16 by (intro mult_right_mono) simp_all
    ultimately show ?thesis by simp
  qed
  have "double_round d = PlusInf \<or> double_round d = Finite v"
    using pos e by (simp add: double_round_def fp_round_def Let_def v_def u_def)
  with big show ?thesis
    by (auto simp: InputUpdateInterval_eq)
qed

lemma double_round_zero: "double_round 0 = Finite 0"
  by (simp add: double_round_def fp_round_def)

lemma never_due_at_same_time: "\<not> fp_less InputUpdateInterval (fp_sub double_round now now)"
  by (cases now) (simp_all add: fp_sub_def double_round_zero InputUpdateInterval_eq)

lemma round_half_even_le_even:
  assumes "q \<le> of_int N + 1 / 2" and "even N"
  shows "round_half_even q \<le> N"
proof -
  have f: "of_int \<lfloor>q\<rfloor> \<le> q" "q < of_int \<lfloor>q\<rfloor> + 1" by linarith+
  have "\<lfloor>q\<rfloor> \<le> N" using assms(1) by (simp add: floor_le_iff)
  then consider "\<lfloor>q\<rfloor> = N" | "\<lfloor>q\<rfloor> + 1 \<le> N" by linarith
  then show ?thesis
  proof cases
    case 1
    with assms show ?thesis
      by (auto simp: round_half_even_def Let_def)
  next
    case 2
    then show ?thesis
      by (auto simp: round_half_even_def Let_def)
  qed
qed

lemma round_half_even_gt_half:
  assumes "of_int N + 1 / 2 < q"
  shows "N + 1 \<le> round_half_even q"
proof -
  have "N \<le> \<lfloor>q\<rfloor>" using assms by (simp add: le_floor_iff)
  then consider "\<lfloor>q\<rfloor> = N" | "N + 1 \<le> \<lfloor>q\<rfloor>" by linarith
  then show ?thesis
  proof cases
    case 1
    with assms show ?thesis
      by (auto simp: round_half_even_def Let_def)
  next
    case 2
    then show ?thesis
      by (auto simp: round_half_even_def Let_def)
  qed
qed

lemma not_due_if_near:
  assumes lo: "1 / 20 < d" and hi: "d \<le> 13421773 / 268435456 + 1 / 2 ^ 58"
  shows "double_round d = Finite (13421773 / 268435456) \<or>
         (\<exists>v. double_round d = Finite v \<and> v \<le> 13421773 / 268435456)"
proof -
  define u :: real where "u = 1 / 2 ^ 57"
  define n where "n = round_half_even (d / u)"
  have "\<lfloor>log 2 d\<rfloor> = - 5"
    using lo hi by (intro floor_log2_eq) simp_all
  then have e: "max \<lfloor>log 2 \<bar>d\<bar>\<rfloor> (- 1022) = - 5"
    using lo by simp
  have "d / u \<le> of_int 7205759511166976 + 1 / 2"
    using hi by (simp add: u_def field_simps)
  then have n: "n \<le> 7205759511166976"
    unfolding n_def by (rule round_half_even_le_even) simp
  have "0 \<le> n"
    unfolding n_def using lo by (intro round_half_even_nonneg) (simp add: u_def)
  have v: "of_int n * u \<le> 13421773 / 268435456"
  proof -
    have "of_int n * u \<le> of_int 7205759511166976 * u"
      using n by (intro mult_right_mono) (simp_all add: u_def)
    then show ?thesis by (simp add: u_def)
  qed
  have v0: "0 \<le> of_int n * u"
    using \<open>0 \<le> n\<close> by (simp add: u_def)
  have "double_round d = Finite (of_int n * u)"
    using lo e v v0 by (simp add: double_round_def fp_round_def Let_def n_def u_def)
  with v show ?thesis by blast
qed


lemma due_if_above:
  assumes lo: "13421773 / 268435456 + 1 / 2 ^ 58 < d" and hi: "d < 1 / 16"
  shows "\<exists>v. double_round d = Finite v \<and> 13421773 / 268435456 < v"
proof -
  define u :: real where "u = 1 / 2 ^ 57"
  define n where "n = round_half_even (d / u)"
  have "\<lfloor>log 2 d\<rfloor> = - 5"
    using lo hi by (intro floor_log2_eq) simp_all
  then have e: "max \<lfloor>log 2 \<bar>d\<bar>\<rfloor> (- 1022) = - 5"
    using lo by simp
  have "of_int 7205759511166976 + 1 / 2 < d / u"
    using lo by (simp add: u_def field_simps)
  then have n: "7205759511166976 + 1 \<le> n"
    unfolding n_def by (rule round_half_even_gt_half)
  have "of_int (7205759511166976 + 1) * u \<le> of_int n * u"
    using n by (intro mult_right_mono) (simp_all add: u_def)
  then have v: "13421773 / 268435456 < of_int n * u"
    by (simp add: u_def)
  have "of_int n \<le> d / u + 1 / 2"
    unfolding n_def by (rule round_half_even_le)
  then have "of_int n * u \<le> (d / u + 1 / 2) * u"
    by (intro mult_right_mono) (simp_all add: u_def)
  then have "of_int n * u \<le> 1"
    using hi by (simp add: u_def field_simps)
  moreover have "(1::real) < 2 powi (1023 + 1)"
    by (simp add: one_less_power)
  ultimately have "\<bar>of_int n * u\<bar> < 2 powi (1023 + 1)"
    using v by simp
  then have "double_round d = Finite (of_int n * u)"
    using lo e by (simp add: double_round_def fp_round_def Let_def n_def u_def)
  with v show ?thesis by blast
qed

text \<open>The test of line 240 on the real difference \<open>d\<close> of two finite times.\<close>

lemma due_iff:
  "fp_less InputUpdateInterval (double_round d) \<longleftrightarrow> 13421773 / 268435456 + 1 / 2 ^ 58 < d"
proof (cases "13421773 / 268435456 + 1 / 2 ^ 58 < d")
  case True
  show ?thesis
  proof (cases "d < 1 / 16")
    case True
    with due_if_above [OF \<open>13421773 / 268435456 + 1 / 2 ^ 58 < d\<close>] show ?thesis
      using \<open>13421773 / 268435456 + 1 / 2 ^ 58 < d\<close> by (auto simp: InputUpdateInterval_eq)
  next
    case False
    then have "13421773 / 268435456 + 1 / 2 ^ 57 \<le> d" by simp
    from due_if_long [OF this] True show ?thesis by simp
  qed
next
  case False
  show ?thesis
  proof (cases "d \<le> 1 / 20")
    case True
    from not_due_if_short [OF this] False show ?thesis by simp
  next
    case far: False
    with False have "1 / 20 < d" "d \<le> 13421773 / 268435456 + 1 / 2 ^ 58" by simp_all
    from not_due_if_near [OF this] False show ?thesis
      by (auto simp: InputUpdateInterval_eq)
  qed
qed

lemma due_since_iff:
  "fp_less InputUpdateInterval (fp_sub double_round (Finite a) (Finite b)) \<longleftrightarrow>
   13421773 / 268435456 + 1 / 2 ^ 58 < a - b"
  using due_iff [of "a - b"] by (simp add: fp_sub_def)

lemma due_implies_long_since:
  assumes "fp_less InputUpdateInterval (fp_sub double_round (Finite a) (Finite b))"
  shows "1 / 20 < a - b"
proof -
  have "(1 / 20 :: real) < 13421773 / 268435456 + 1 / 2 ^ 58" by simp
  with assms show ?thesis by (simp add: due_since_iff)
qed

lemma fp_neg_InputUpdateInterval:
  "fp_neg InputUpdateInterval = Finite (- (13421773 / 268435456))"
  by (simp add: InputUpdateInterval_eq)

lemmas time_rules = due_since_iff fp_neg_InputUpdateInterval

subsection \<open>The wire codec\<close>

lemma short_of_bytes_of_short:
  "bytes_of_short e v = [b0, b1] \<Longrightarrow> short_of_bytes e b0 b1 = v"
  by (cases e; rule bit_word_eqI)
     (auto simp: short_of_bytes_def bytes_of_short_def bit_simps)

lemma ReadByte_beyond:
  "offset > dataLength packet \<Longrightarrow> ReadByte packet offset = Inr (0, offset)"
  by (simp add: ReadByte_def)

lemma ReadShort_beyond:
  "offset > dataLength packet \<Longrightarrow> ReadShort h packet offset = Inr (0, offset)"
  by (simp add: ReadShort_def)

lemma ReadByte_inside:
  "offset < dataLength packet \<Longrightarrow> ReadByte packet offset = Inr (packet ! offset, offset + 1)"
  by (simp add: ReadByte_def dataLength_def)

text \<open>
  C5. A read whose offset is at or past the end of the data should return 0, leave the
  offset alone and touch no byte past the end. The guard of both readers is
  \<^verbatim>\<open>*offset > packet->dataLength\<close>, so it only answers 0 from one past the end on
  (\<open>ReadByte_beyond\<close>, \<open>ReadShort_beyond\<close>). With the offset equal to the length,
  \<open>ReadByte\<close> reads the byte after the data of a one-byte packet, and so does
  \<open>ReadShort\<close> on a two-byte packet; a \<open>ReadShort\<close> that starts at the last byte reads
  its second byte after the data. A joined client meets both: an \<open>AddPlayer\<close> packet
  of one byte makes \<open>HandleAddPlayer\<close> read the id at offset 1, the length; one of
  three bytes makes \<open>ReadPosition\<close> read a short at offset 2, the last byte.
\<close>

theorem read_at_end_is_past_end:
  "ReadByte [7] 1 = Inl (PacketReadPastEnd 1) \<and>
   ReadShort example_host [7, 9] 2 = Inl (PacketReadPastEnd 2) \<and>
   ReadShort example_host [7, 9] 1 = Inl (PacketReadPastEnd 2) \<and>
   Update example_host (Finite 1) (ENET_EVENT_TYPE_RECEIVE [2]) example_playing =
     Inl (PacketReadPastEnd 1) \<and>
   Update example_host (Finite 1) (ENET_EVENT_TYPE_RECEIVE [2, 7, 44]) example_playing =
     Inl (PacketReadPastEnd 3)"
  by (simp add: Update_defs Handle_defs Read_defs Player_defs command_defs example_defs
      example_playing_def time_rules Let_def)

lemma sint_float_to_short:
  "float_to_short (Finite r) = Inr v \<Longrightarrow> sint v = float_to_int r"
  by (auto simp: float_to_short_def Let_def sint_sbintrunc' signed_take_bit_int_eq_self
      split: if_splits)

lemma float_to_short_in_range:
  "- 32768 \<le> float_to_int r \<Longrightarrow> float_to_int r \<le> 32767 \<Longrightarrow>
   float_to_short (Finite r) = Inr (word_of_int (float_to_int r))"
  by (simp add: float_to_short_def Let_def)

lemma bytes_of_short_two: "\<exists>b0 b1. bytes_of_short e v = [b0, b1]"
  by (cases e) (simp_all add: bytes_of_short_def)

lemma ReadShort_bytes_of_short:
  assumes len: "length pre = offset"
  shows "ReadShort h (pre @ bytes_of_short (host_order h) v @ post) offset = Inr (v, offset + 2)"
proof -
  obtain b0 b1 where b: "bytes_of_short (host_order h) v = [b0, b1]"
    using bytes_of_short_two by blast
  have "short_of_bytes (host_order h) b0 b1 = v"
    using b by (rule short_of_bytes_of_short)
  then show ?thesis
    using len b by (auto simp: ReadShort_def dataLength_def nth_append)
qed

text \<open>
  C7, as amended. The round trip cannot hold for every position, since the packet
  carries each component as a signed 16-bit integer. For a position of two finite
  floats whose values, once their fraction is dropped, lie between -32768 and 32767, the
  five bytes written by \<open>Update\<close> start with the \<open>UpdateInput\<close> tag, and \<open>ReadShort\<close>
  at offsets 1 and 3 gives back exactly those truncated components, whatever the byte
  order of the host.
\<close>

theorem writeUpdateInput_roundtrip:
  assumes "x pos = Finite rx" and "y pos = Finite ry"
    and "- 32768 \<le> float_to_int rx" and "float_to_int rx \<le> 32767"
    and "- 32768 \<le> float_to_int ry" and "float_to_int ry \<le> 32767"
  shows "\<exists>buffer sx sy.
           writeUpdateInput h pos = Inr buffer \<and> length buffer = 5 \<and> buffer ! 0 = UpdateInput \<and>
           ReadShort h buffer 1 = Inr (sx, 3) \<and> ReadShort h buffer 3 = Inr (sy, 5) \<and>
           sint sx = float_to_int rx \<and> sint sy = float_to_int ry"
proof -
  let ?sx = "word_of_int (float_to_int rx) :: i16"
  let ?sy = "word_of_int (float_to_int ry) :: i16"
  let ?buffer = "UpdateInput # bytes_of_short (host_order h) ?sx @ bytes_of_short (host_order h) ?sy"
  have fx: "float_to_short (Finite rx) = Inr ?sx" and fy: "float_to_short (Finite ry) = Inr ?sy"
    using assms by (simp_all add: float_to_short_in_range)
  have w: "writeUpdateInput h pos = Inr ?buffer"
    using assms(1,2) by (simp add: writeUpdateInput_def fx fy)
  obtain a0 a1 where a: "bytes_of_short (host_order h) ?sx = [a0, a1]"
    using bytes_of_short_two by blast
  obtain c0 c1 where c: "bytes_of_short (host_order h) ?sy = [c0, c1]"
    using bytes_of_short_two by blast
  have r1: "ReadShort h ?buffer 1 = Inr (?sx, 3)"
    using ReadShort_bytes_of_short [of "[UpdateInput]" 1 h ?sx "bytes_of_short (host_order h) ?sy"]
    by simp
  have r2: "ReadShort h ?buffer 3 = Inr (?sy, 5)"
    using ReadShort_bytes_of_short [of "UpdateInput # bytes_of_short (host_order h) ?sx" 3 h ?sy "[]"] a
    by simp
  have "length ?buffer = 5" using a c by simp
  moreover have "?buffer ! 0 = UpdateInput" by simp
  moreover have "sint ?sx = float_to_int rx" using fx by (rule sint_float_to_short)
  moreover have "sint ?sy = float_to_int ry" using fy by (rule sint_float_to_short)
  ultimately show ?thesis using w r1 r2 by blast
qed

text \<open>The position (100.5, -2.5) travels as 100 and -2.\<close>

theorem writeUpdateInput_roundtrip_witness:
  "x \<lparr>x = Finite (201 / 2), y = Finite (- 5 / 2)\<rparr> = Finite (201 / 2) \<and>
   y \<lparr>x = Finite (201 / 2), y = Finite (- 5 / 2)\<rparr> = Finite (- 5 / 2) \<and>
   - 32768 \<le> float_to_int (201 / 2) \<and> float_to_int (201 / 2) \<le> 32767 \<and>
   - 32768 \<le> float_to_int (- 5 / 2) \<and> float_to_int (- 5 / 2) \<le> 32767 \<and>
   (\<exists>buffer sx sy.
      writeUpdateInput example_host \<lparr>x = Finite (201 / 2), y = Finite (- 5 / 2)\<rparr> = Inr buffer \<and>
      length buffer = 5 \<and> buffer ! 0 = UpdateInput \<and>
      ReadShort example_host buffer 1 = Inr (sx, 3) \<and>
      ReadShort example_host buffer 3 = Inr (sy, 5) \<and> sint sx = 100 \<and> sint sy = - 2)"
  using writeUpdateInput_roundtrip
    [of "\<lparr>x = Finite (201 / 2), y = Finite (- 5 / 2)\<rparr>" "201 / 2" "- 5 / 2" example_host]
  by (simp add: float_to_int_def)

text \<open>
  The position (40000, 0) has no encoding: 40000 is not an \<^verbatim>\<open>int16_t\<close>, the cast of
  line 245 is undefined and no packet comes out that could be read back as 40000. Were
  the cast to wrap around instead, the short would read back as -25536.
\<close>

theorem writeUpdateInput_out_of_range:
  "writeUpdateInput example_host \<lparr>x = Finite 40000, y = Finite 0\<rparr> =
     Inl (ShortCastOutOfRange 40000) \<and>
   float_to_int 40000 = 40000 \<and> sint (word_of_int 40000 :: i16) = - 25536"
  by (simp add: writeUpdateInput_def float_to_short_def float_to_int_def)

subsection \<open>What a frame leaves alone\<close>

lemma set_Player_Inr:
  "set_Player s i f = Inr s' \<Longrightarrow>
   0 \<le> i \<and> i < int (length (Players s)) \<and>
   s' = s\<lparr>Players := (Players s)[nat i := f (Players s ! nat i)]\<rparr>"
  by (auto simp: set_Player_def split: if_splits)

lemma set_Player_frame: "set_Player s i f = Inr s' \<Longrightarrow> only_Players_differ s s'"
  by (auto simp: only_Players_differ_def dest!: set_Player_Inr)

lemma only_Players_differ_refl: "only_Players_differ s s"
  by (simp add: only_Players_differ_def)

lemma only_Players_differ_trans:
  "only_Players_differ s s1 \<Longrightarrow> only_Players_differ s1 s2 \<Longrightarrow> only_Players_differ s s2"
  unfolding only_Players_differ_def
  by (metis (no_types, lifting) globals.surjective globals.update_convs(4) globals.select_convs)

lemma only_Players_differ_fields:
  "only_Players_differ s s' \<Longrightarrow>
   LocalPlayerId s' = LocalPlayerId s \<and> server s' = server s \<and>
   LastInputSend s' = LastInputSend s \<and> sent s' = sent s \<and> destroyed s' = destroyed s \<and>
   length (Players s') = length (Players s)"
  unfolding only_Players_differ_def
  by (metis globals.select_convs globals.surjective globals.update_convs(4))

lemma HandleAddPlayer_frame:
  "HandleAddPlayer h packet offset s = Inr s' \<Longrightarrow> only_Players_differ s s'"
  by (auto simp: HandleAddPlayer_def Let_def only_Players_differ_refl
      split: sum.splits prod.splits if_splits
      dest!: set_Player_frame intro: only_Players_differ_trans)

lemma HandleRemovePlayer_frame:
  "HandleRemovePlayer h packet offset s = Inr s' \<Longrightarrow> only_Players_differ s s'"
  by (auto simp: HandleRemovePlayer_def Let_def only_Players_differ_refl
      split: sum.splits prod.splits if_splits
      dest!: set_Player_frame intro: only_Players_differ_trans)

lemma HandleUpdatePlayer_frame:
  "HandleUpdatePlayer h packet offset s = Inr s' \<Longrightarrow> only_Players_differ s s'"
  by (auto simp: HandleUpdatePlayer_def Let_def only_Players_differ_refl
      split: sum.splits prod.splits if_splits
      dest!: set_Player_frame intro: only_Players_differ_trans)

lemma Update_accepted_frame:
  "Update_accepted h packet command offset s = Inr s' \<Longrightarrow> only_Players_differ s s'"
  by (auto simp: Update_accepted_def only_Players_differ_refl split: if_splits
      dest: HandleAddPlayer_frame HandleRemovePlayer_frame HandleUpdatePlayer_frame)

lemma Update_not_accepted_frame:
  "Update_not_accepted h packet command offset s = Inr (broke, s') \<Longrightarrow>
   server s' = server s \<and> sent s' = sent s \<and> destroyed s' = destroyed s \<and>
   length (Players s') = length (Players s)"
  by (auto simp: Update_not_accepted_def Let_def
      split: sum.splits prod.splits if_splits dest!: set_Player_Inr)

lemma Update_receive_frame:
  "Update_receive h packet s = Inr s' \<Longrightarrow>
   server s' = server s \<and> sent s' = sent s \<and> length (Players s') = length (Players s)"
  by (auto simp: Update_receive_def enet_packet_destroy_def
      split: sum.splits prod.splits if_splits
      dest!: Update_not_accepted_frame Update_accepted_frame only_Players_differ_fields)

lemma Update_receive_joined:
  "Update_receive h packet s = Inr s' \<Longrightarrow> LocalPlayerId s \<noteq> - 1 \<Longrightarrow>
   LocalPlayerId s' = LocalPlayerId s \<and> LastInputSend s' = LastInputSend s"
  by (auto simp: Update_receive_def enet_packet_destroy_def
      split: sum.splits prod.splits if_splits
      dest!: Update_accepted_frame only_Players_differ_fields)

lemma writeUpdateInput_shape:
  "writeUpdateInput h pos = Inr buffer \<Longrightarrow> length buffer = 5 \<and> buffer ! 0 = UpdateInput"
  by (cases "host_order h")
     (auto simp: writeUpdateInput_def bytes_of_short_def split: sum.splits)

lemma Update_send_Inr:
  "Update_send h now s = Inr s1 \<Longrightarrow>
   (if LocalPlayerId s \<ge> 0 \<and>
       fp_less InputUpdateInterval (fp_sub double_round now (LastInputSend s))
    then \<exists>buffer. writeUpdateInput h (Position (Players s ! nat (LocalPlayerId s))) = Inr buffer \<and>
           s1 = s\<lparr>sent := sent s @ [buffer], LastInputSend := now\<rparr>
    else s1 = s)"
  by (auto simp: Update_send_def get_Player_def split: sum.splits if_splits)

lemma Update_event_joined:
  "Update_event h Event s = Inr s' \<Longrightarrow> LocalPlayerId s \<ge> 0 \<Longrightarrow>
   sent s' = sent s \<and> LastInputSend s' = LastInputSend s \<and>
   (server s' = None \<or> LocalPlayerId s' = LocalPlayerId s)"
  by (cases Event)
     (auto simp: Update_event_def dest: Update_receive_frame Update_receive_joined)

lemma Update_event_sent:
  "Update_event h Event s = Inr s' \<Longrightarrow> sent s' = sent s"
  by (cases Event) (auto simp: Update_event_def dest: Update_receive_frame)

lemma Update_quiet:
  assumes "server s = None \<or> (0 \<le> LocalPlayerId s \<and> LastInputSend s = now)"
    and "Update h now Event s = Inr s'"
  shows "sent s' = sent s \<and> (server s' = None \<or> (0 \<le> LocalPlayerId s' \<and> LastInputSend s' = now))"
proof (cases "server s = None")
  case True
  with assms(2) show ?thesis by (simp add: Update_def)
next
  case False
  with assms(1) have j: "0 \<le> LocalPlayerId s" "LastInputSend s = now" by auto
  then have "Update_send h now s = Inr s"
    by (simp add: Update_send_def never_due_at_same_time)
  with False assms(2) have "Update_event h Event s = Inr s'"
    by (auto simp: Update_def)
  from Update_event_joined [OF this j(1)] j show ?thesis by auto
qed

lemma Updates_quiet:
  "server s = None \<or> (0 \<le> LocalPlayerId s \<and> LastInputSend s = now) \<Longrightarrow>
   Updates h now Events s = Inr s' \<Longrightarrow> sent s' = sent s"
proof (induction Events arbitrary: s)
  case Nil
  then show ?case by simp
next
  case (Cons Event Events)
  from Cons.prems(2) obtain s1 where
    s1: "Update h now Event s = Inr s1" and rest: "Updates h now Events s1 = Inr s'"
    by (auto split: sum.splits)
  from Update_quiet [OF Cons.prems(1) s1]
  have "sent s1 = sent s" and "server s1 = None \<or> (0 \<le> LocalPlayerId s1 \<and> LastInputSend s1 = now)"
    by auto
  with Cons.IH [OF _ rest] show ?case by simp
qed

text \<open>
  C6. A call of \<open>Update\<close> that returns sends nothing or exactly one packet. It sends
  exactly when a connection attempt is active (\<^verbatim>\<open>server != NULL\<close>), the session is
  joined (\<^verbatim>\<open>LocalPlayerId >= 0\<close>) and the test of line 240 holds, the double
  \<^verbatim>\<open>now - LastInputSend\<close> being greater than the interval; so it sends only when the
  session is joined and, the two times being finite, more than 1/20 second lies between
  them (\<open>due_since_iff\<close> has the exact bound). The packet is the five-byte \<open>UpdateInput\<close> packet of the local player's
  position, and \<open>LastInputSend\<close> is \<open>now\<close> when the call ends. After such a send,
  any number of further calls with the same \<open>now\<close>, whatever events they meet, send
  nothing.
\<close>

theorem Update_sends_at_most_once:
  assumes "Update h now Event s = Inr s'"
  shows "(if server s \<noteq> None \<and> LocalPlayerId s \<ge> 0 \<and>
             fp_less InputUpdateInterval (fp_sub double_round now (LastInputSend s))
          then (\<exists>buffer. sent s' = sent s @ [buffer] \<and> length buffer = 5 \<and>
                  buffer ! 0 = UpdateInput \<and>
                  writeUpdateInput h (Position (Players s ! nat (LocalPlayerId s))) = Inr buffer) \<and>
               LastInputSend s' = now \<and>
               (\<forall>Events s''. Updates h now Events s' = Inr s'' \<longrightarrow> sent s'' = sent s')
          else sent s' = sent s) \<and>
         (sent s' \<noteq> sent s \<longrightarrow>
            LocalPlayerId s \<ge> 0 \<and>
            (\<forall>t l. now = Finite t \<and> LastInputSend s = Finite l \<longrightarrow> 1 / 20 < t - l))"
proof -
  let ?due = "LocalPlayerId s \<ge> 0 \<and>
    fp_less InputUpdateInterval (fp_sub double_round now (LastInputSend s))"
  have main: "if server s \<noteq> None \<and> ?due
          then (\<exists>buffer. sent s' = sent s @ [buffer] \<and> length buffer = 5 \<and>
                  buffer ! 0 = UpdateInput \<and>
                  writeUpdateInput h (Position (Players s ! nat (LocalPlayerId s))) = Inr buffer) \<and>
               LastInputSend s' = now \<and>
               (\<forall>Events s''. Updates h now Events s' = Inr s'' \<longrightarrow> sent s'' = sent s')
          else sent s' = sent s"
  proof (cases "server s = None")
    case True
    with assms show ?thesis by (simp add: Update_def)
  next
    case False
    with assms obtain s1 where
      s1: "Update_send h now s = Inr s1" and ev: "Update_event h Event s1 = Inr s'"
      by (auto simp: Update_def split: sum.splits)
    show ?thesis
    proof (cases ?due)
      case no: False
      with Update_send_Inr [OF s1] have "s1 = s" by auto
      with ev Update_event_sent no show ?thesis by auto
    next
      case yes: True
      with Update_send_Inr [OF s1] obtain buffer where
        b: "writeUpdateInput h (Position (Players s ! nat (LocalPlayerId s))) = Inr buffer"
        and s1_eq: "s1 = s\<lparr>sent := sent s @ [buffer], LastInputSend := now\<rparr>"
        by auto
      have j1: "LocalPlayerId s1 \<ge> 0" using yes s1_eq by simp
      from Update_event_joined [OF ev j1] s1_eq
      have s': "sent s' = sent s @ [buffer]" "LastInputSend s' = now"
        "server s' = None \<or> 0 \<le> LocalPlayerId s'"
        using yes by auto
      then have q: "server s' = None \<or> (0 \<le> LocalPlayerId s' \<and> LastInputSend s' = now)"
        by auto
      have "\<forall>Events s''. Updates h now Events s' = Inr s'' \<longrightarrow> sent s'' = sent s'"
        using Updates_quiet [OF q] by blast
      with s' b writeUpdateInput_shape [OF b] False yes show ?thesis by auto
    qed
  qed
  have only: "LocalPlayerId s \<ge> 0 \<and>
      (\<forall>t l. now = Finite t \<and> LastInputSend s = Finite l \<longrightarrow> 1 / 20 < t - l)"
    if "sent s' \<noteq> sent s"
  proof -
    from that main have due: ?due by (auto split: if_splits)
    then show ?thesis
      using due_implies_long_since by auto
  qed
  from main only show ?thesis by blast
qed

text \<open>
  Player 1, whose \<open>LastInputSend\<close> is minus the interval, sends at time 1; the next
  two frames at time 1 do not send, whatever the server says. The session that last sent
  at time 5 does not send at time 5 + 13421773/268435456, when the interval has passed but
  not more.
\<close>

theorem Update_sends_at_most_once_witness:
  "Update example_host (Finite 1) ENET_EVENT_TYPE_NONE example_joined =
     Inr (example_joined\<lparr>sent := [[5, 100, 0, 100, 0]], LastInputSend := Finite 1\<rparr>) \<and>
   server example_joined \<noteq> None \<and> LocalPlayerId example_joined \<ge> 0 \<and>
   fp_less InputUpdateInterval (fp_sub double_round (Finite 1) (LastInputSend example_joined)) \<and>
   sent (example_joined\<lparr>sent := [[5, 100, 0, 100, 0]], LastInputSend := Finite 1\<rparr>) =
     sent example_joined @ [[5, 100, 0, 100, 0]] \<and>
   1 / 20 < 1 - (- (13421773 / 268435456) :: real) \<and>
   Updates example_host (Finite 1)
     [ENET_EVENT_TYPE_NONE, ENET_EVENT_TYPE_RECEIVE [4, 1, 7, 0, 7, 0]]
     (example_joined\<lparr>sent := [[5, 100, 0, 100, 0]], LastInputSend := Finite 1\<rparr>) =
     Inr (example_joined\<lparr>sent := [[5, 100, 0, 100, 0]], LastInputSend := Finite 1,
            destroyed := [[1, 1], [4, 1, 7, 0, 7, 0]]\<rparr>) \<and>
   Update example_host (Finite (5 + 13421773 / 268435456)) ENET_EVENT_TYPE_NONE example_playing =
     Inr example_playing"
proof -
  have run: "Update example_host (Finite 1) ENET_EVENT_TYPE_NONE example_joined =
     Inr (example_joined\<lparr>sent := [[5, 100, 0, 100, 0]], LastInputSend := Finite 1\<rparr>)"
    by (simp add: Update_defs Player_defs write_defs command_defs example_defs time_rules Let_def)
  have more: "Updates example_host (Finite 1)
     [ENET_EVENT_TYPE_NONE, ENET_EVENT_TYPE_RECEIVE [4, 1, 7, 0, 7, 0]]
     (example_joined\<lparr>sent := [[5, 100, 0, 100, 0]], LastInputSend := Finite 1\<rparr>) =
     Inr (example_joined\<lparr>sent := [[5, 100, 0, 100, 0]], LastInputSend := Finite 1,
            destroyed := [[1, 1], [4, 1, 7, 0, 7, 0]]\<rparr>)"
    by (simp add: Update_defs Handle_defs Read_defs Player_defs write_defs command_defs
        example_defs time_rules Let_def)
  have idle: "Update example_host (Finite (5 + 13421773 / 268435456)) ENET_EVENT_TYPE_NONE
      example_playing = Inr example_playing"
    by (simp add: Update_defs Player_defs command_defs example_defs example_playing_def
        time_rules Let_def)
  have due: "fp_less InputUpdateInterval
      (fp_sub double_round (Finite 1) (LastInputSend example_joined))"
    by (simp add: example_defs time_rules)
  show ?thesis
    using Update_sends_at_most_once [OF run] run more idle due
    by (simp add: example_defs)
qed

lemma Update_connected:
  "server s \<noteq> None \<Longrightarrow>
   Update h now Event s =
     (case Update_send h now s of Inl ub \<Rightarrow> Inl ub | Inr s1 \<Rightarrow> Update_event h Event s1)"
  by (auto simp: Update_def)

lemma Update_send_idle:
  "\<not> (0 \<le> LocalPlayerId s \<and>
      fp_less InputUpdateInterval (fp_sub double_round now (LastInputSend s))) \<Longrightarrow>
   Update_send h now s = Inr s"
  by (auto simp: Update_send_def)

text \<open>
  C9, as amended. A frame with an active connection attempt that meets a disconnect
  event ends with \<^verbatim>\<open>server == NULL\<close> and \<^verbatim>\<open>LocalPlayerId == -1\<close>, and leaves the
  player table and the destroyed packets as they were. \<open>LastInputSend\<close> is not reset
  by the event: it is \<open>now\<close> when the frame sent the input packet before polling
  (the session was joined and the test of line 240 held), and unchanged otherwise; that
  send is the only other effect of the frame. When no send is due the frame returns
  exactly the old state with those two globals cleared.
\<close>

theorem Update_disconnect:
  assumes conn: "server s \<noteq> None"
  shows "(\<not> (0 \<le> LocalPlayerId s \<and>
               fp_less InputUpdateInterval (fp_sub double_round now (LastInputSend s))) \<longrightarrow>
            Update h now ENET_EVENT_TYPE_DISCONNECT s =
              Inr (s\<lparr>server := None, LocalPlayerId := - 1\<rparr>)) \<and>
         (\<forall>s'. Update h now ENET_EVENT_TYPE_DISCONNECT s = Inr s' \<longrightarrow>
            server s' = None \<and> LocalPlayerId s' = - 1 \<and>
            Players s' = Players s \<and> destroyed s' = destroyed s \<and>
            (if 0 \<le> LocalPlayerId s \<and>
                fp_less InputUpdateInterval (fp_sub double_round now (LastInputSend s))
             then LastInputSend s' = now \<and> (\<exists>buffer. sent s' = sent s @ [buffer])
             else LastInputSend s' = LastInputSend s \<and> sent s' = sent s))"
proof -
  let ?due = "0 \<le> LocalPlayerId s \<and>
    fp_less InputUpdateInterval (fp_sub double_round now (LastInputSend s))"
  have idle: "Update h now ENET_EVENT_TYPE_DISCONNECT s =
      Inr (s\<lparr>server := None, LocalPlayerId := - 1\<rparr>)"
    if "\<not> ?due"
    using that conn by (simp add: Update_connected Update_send_idle Update_event_def)
  have any: "server s' = None \<and> LocalPlayerId s' = - 1 \<and>
        Players s' = Players s \<and> destroyed s' = destroyed s \<and>
        (if ?due
         then LastInputSend s' = now \<and> (\<exists>buffer. sent s' = sent s @ [buffer])
         else LastInputSend s' = LastInputSend s \<and> sent s' = sent s)"
    if run: "Update h now ENET_EVENT_TYPE_DISCONNECT s = Inr s'" for s'
  proof -
    from run obtain s1 where s1: "Update_send h now s = Inr s1"
      and s': "s' = s1\<lparr>server := None, LocalPlayerId := - 1\<rparr>"
      using conn by (auto simp: Update_connected Update_event_def split: sum.splits)
    from Update_send_Inr [OF s1] s' show ?thesis
      by (auto split: if_splits)
  qed
  from idle any show ?thesis by blast
qed

text \<open>
  The session that last sent at time 5 is disconnected at time 6: the frame first sends
  one more input packet, and \<open>LastInputSend\<close> is 6 afterwards.
\<close>

theorem Update_disconnect_witness:
  "server example_playing \<noteq> None \<and>
   Update example_host (Finite 6) ENET_EVENT_TYPE_DISCONNECT example_playing =
     Inr (example_playing\<lparr>sent := [[5, 100, 0, 100, 0], [5, 100, 0, 100, 0]],
            LastInputSend := Finite 6, server := None, LocalPlayerId := - 1\<rparr>) \<and>
   0 \<le> LocalPlayerId example_playing \<and>
   fp_less InputUpdateInterval (fp_sub double_round (Finite 6) (LastInputSend example_playing)) \<and>
   Players (example_playing\<lparr>sent := [[5, 100, 0, 100, 0], [5, 100, 0, 100, 0]],
            LastInputSend := Finite 6, server := None, LocalPlayerId := - 1\<rparr>) =
     Players example_playing"
proof -
  have conn: "server example_playing \<noteq> None"
    by (simp add: example_defs example_playing_def)
  have run: "Update example_host (Finite 6) ENET_EVENT_TYPE_DISCONNECT example_playing =
     Inr (example_playing\<lparr>sent := [[5, 100, 0, 100, 0], [5, 100, 0, 100, 0]],
            LastInputSend := Finite 6, server := None, LocalPlayerId := - 1\<rparr>)"
    by (simp add: Update_defs Player_defs write_defs command_defs example_defs
        example_playing_def time_rules Let_def)
  have due: "fp_less InputUpdateInterval
      (fp_sub double_round (Finite 6) (LastInputSend example_playing))"
    by (simp add: example_defs example_playing_def time_rules)
  show ?thesis
    using Update_disconnect [OF conn, of "Finite 6" example_host] run conn due
    by (simp add: example_defs example_playing_def)
qed

text \<open>
  The session that last sent at time 5 is disconnected at time 5 + 1/64:
  \<open>LastInputSend\<close> is still 5 afterwards, not the -100 it starts with. Disconnected
  at time 6, the same frame first sends one more input packet.
\<close>

theorem disconnect_keeps_LastInputSend:
  "Update example_host (Finite (5 + 1 / 64)) ENET_EVENT_TYPE_DISCONNECT example_playing =
     Inr (example_playing\<lparr>server := None, LocalPlayerId := - 1\<rparr>) \<and>
   LastInputSend (example_playing\<lparr>server := None, LocalPlayerId := - 1\<rparr>) = Finite 5 \<and>
   LastInputSend (initial_globals example_host) = Finite (- 100) \<and>
   Update example_host (Finite 6) ENET_EVENT_TYPE_DISCONNECT example_playing =
     Inr (example_playing\<lparr>sent := [[5, 100, 0, 100, 0], [5, 100, 0, 100, 0]],
            LastInputSend := Finite 6, server := None, LocalPlayerId := - 1\<rparr>)"
  by (simp add: Update_defs Player_defs write_defs command_defs example_defs
      example_playing_def time_rules Let_def)

subsection \<open>The table keeps its size\<close>

lemma table_ok_initial: "table_ok h (initial_globals h)"
  by (simp add: table_ok_def initial_globals_def)

lemma table_ok_Update:
  assumes "Update h now Event s = Inr s'" and "table_ok h s"
  shows "table_ok h s'"
proof (cases "server s = None")
  case True
  with assms show ?thesis by (simp add: Update_def)
next
  case False
  with assms(1) obtain s1 where s1: "Update_send h now s = Inr s1"
    and ev: "Update_event h Event s1 = Inr s'"
    by (auto simp: Update_connected split: sum.splits)
  from Update_send_Inr [OF s1] have "Players s1 = Players s"
    by (auto split: if_splits)
  moreover from ev have "length (Players s') = length (Players s1)"
    by (cases Event) (auto simp: Update_event_def dest: Update_receive_frame)
  ultimately show ?thesis using assms(2) by (simp add: table_ok_def)
qed

lemma table_ok_UpdateLocalPlayer:
  "UpdateLocalPlayer h movementDelta s = Inr s' \<Longrightarrow> table_ok h s \<Longrightarrow> table_ok h s'"
  by (auto simp: UpdateLocalPlayer_def table_ok_def split: if_splits dest!: set_Player_Inr)

subsection \<open>Being accepted by the server\<close>

lemma unat_less_if_uint_less: "uint (b :: 'a::len word) < int n \<Longrightarrow> unat b < n"
  by (metis of_nat_less_iff uint_nat)

lemma RemotePlayer_both: "p\<lparr>Active := a, Position := pos\<rparr> = \<lparr>Active = a, Position = pos\<rparr>"
  by (cases p) simp

lemma accept_run:
  assumes "table_ok h s" and "LocalPlayerId s = - 1" and "uint b < int (MAX_PLAYERS h)"
  shows "Update_receive h (AcceptPlayer # b # rest) s =
     Inr (s\<lparr>LocalPlayerId := uint b, LastInputSend := fp_neg InputUpdateInterval,
            Players := (Players s)
              [unat b := \<lparr>Active = True, Position = \<lparr>x = Finite 100, y = Finite 100\<rparr>\<rparr>],
            destroyed := destroyed s @ [AcceptPlayer # b # rest]\<rparr>)"
proof -
  have "unat b < length (Players s)"
    using assms by (simp add: table_ok_def unat_less_if_uint_less)
  then show ?thesis
    using assms
    by (simp add: Update_receive_def Update_not_accepted_def Read_defs Player_defs table_ok_def
        enet_packet_destroy_def Let_def RemotePlayer_both)
qed

lemma writeUpdateInput_spawn:
  "\<exists>buffer. writeUpdateInput h \<lparr>x = Finite 100, y = Finite 100\<rparr> = Inr buffer"
  by (simp add: writeUpdateInput_def float_to_short_def float_to_int_def)

text \<open>
  What an acceptance with an id below \<open>MAX_PLAYERS\<close> does: the session is joined with
  that id, its slot is active at (100, 100), the other slots are as they were, nothing
  is sent, the packet is destroyed once, and \<open>LastInputSend\<close> is minus the interval.
  The next frame at a finite time \<open>t\<close> then sends the input packet of (100, 100)
  exactly when \<open>t\<close> is above \<open>1 / 2 ^ 58\<close>. No packet received later changes
  \<open>LocalPlayerId\<close>.
\<close>

lemma accept_in_range:
  assumes ok: "table_ok h s" and conn: "server s \<noteq> None" and unjoined: "LocalPlayerId s = - 1"
    and range: "uint b < int (MAX_PLAYERS h)"
  shows "\<exists>s'. Update h now (ENET_EVENT_TYPE_RECEIVE (AcceptPlayer # b # rest)) s = Inr s' \<and>
           LocalPlayerId s' = uint b \<and> server s' = server s \<and>
           LastInputSend s' = fp_neg InputUpdateInterval \<and>
           Players s' = (Players s)
             [unat b := \<lparr>Active = True, Position = \<lparr>x = Finite 100, y = Finite 100\<rparr>\<rparr>] \<and>
           sent s' = sent s \<and> destroyed s' = destroyed s @ [AcceptPlayer # b # rest] \<and>
           (\<forall>t. 1 / 2 ^ 58 < t \<longrightarrow>
              (\<exists>buffer. writeUpdateInput h \<lparr>x = Finite 100, y = Finite 100\<rparr> = Inr buffer \<and>
                 Update h (Finite t) ENET_EVENT_TYPE_NONE s' =
                   Inr (s'\<lparr>sent := sent s' @ [buffer], LastInputSend := Finite t\<rparr>))) \<and>
           (\<forall>t. t \<le> 1 / 2 ^ 58 \<longrightarrow> Update h (Finite t) ENET_EVENT_TYPE_NONE s' = Inr s') \<and>
           (\<forall>now' packet' s''. Update h now' (ENET_EVENT_TYPE_RECEIVE packet') s' = Inr s'' \<longrightarrow>
              LocalPlayerId s'' = uint b)"
proof -
  let ?packet = "AcceptPlayer # b # rest"
  define s' where "s' = s\<lparr>LocalPlayerId := uint b, LastInputSend := fp_neg InputUpdateInterval,
            Players := (Players s)
              [unat b := \<lparr>Active = True, Position = \<lparr>x = Finite 100, y = Finite 100\<rparr>\<rparr>],
            destroyed := destroyed s @ [?packet]\<rparr>"
  have idle: "Update_send h now s = Inr s"
    using unjoined by (simp add: Update_send_def)
  have run: "Update h now (ENET_EVENT_TYPE_RECEIVE ?packet) s = Inr s'"
    using conn idle accept_run [OF ok unjoined range]
    by (simp add: Update_connected Update_event_def s'_def)
  have fields: "LocalPlayerId s' = uint b" "server s' = server s"
    "LastInputSend s' = fp_neg InputUpdateInterval"
    "Players s' = (Players s)
       [unat b := \<lparr>Active = True, Position = \<lparr>x = Finite 100, y = Finite 100\<rparr>\<rparr>]"
    "sent s' = sent s" "destroyed s' = destroyed s @ [?packet]"
    by (simp_all add: s'_def)
  have conn': "server s' \<noteq> None" using conn fields by simp
  have slot: "unat b < length (Players s)"
    using ok range by (simp add: table_ok_def unat_less_if_uint_less)
  have slot': "uint b < int (length (Players s))"
    using ok range by (simp add: table_ok_def)
  obtain buffer where buffer: "writeUpdateInput h \<lparr>x = Finite 100, y = Finite 100\<rparr> = Inr buffer"
    using writeUpdateInput_spawn by blast
  have send: "Update_send h (Finite t) s' =
      Inr (s'\<lparr>sent := sent s' @ [buffer], LastInputSend := Finite t\<rparr>)"
    if "1 / 2 ^ 58 < t" for t
    using that slot slot' buffer fields
    by (simp add: Update_send_def get_Player_def time_rules)
  have next_late: "\<exists>buffer. writeUpdateInput h \<lparr>x = Finite 100, y = Finite 100\<rparr> = Inr buffer \<and>
      Update h (Finite t) ENET_EVENT_TYPE_NONE s' =
        Inr (s'\<lparr>sent := sent s' @ [buffer], LastInputSend := Finite t\<rparr>)"
    if "1 / 2 ^ 58 < t" for t
    using send [OF that] conn' buffer by (simp add: Update_connected Update_event_def)
  have next_early: "Update h (Finite t) ENET_EVENT_TYPE_NONE s' = Inr s'"
    if "t \<le> 1 / 2 ^ 58" for t
    using that conn' fields
    by (simp add: Update_connected Update_event_def Update_send_def time_rules)
  have once: "LocalPlayerId s'' = uint b"
    if r: "Update h now' (ENET_EVENT_TYPE_RECEIVE packet') s' = Inr s''" for now' packet' s''
  proof -
    from r conn' obtain s1 where s1: "Update_send h now' s' = Inr s1"
      and ev: "Update_receive h packet' s1 = Inr s''"
      by (auto simp: Update_connected Update_event_def split: sum.splits)
    from Update_send_Inr [OF s1] fields have id1: "LocalPlayerId s1 = uint b"
      by (auto split: if_splits)
    have "0 \<le> uint b" by simp
    with id1 have "LocalPlayerId s1 \<noteq> - 1" by linarith
    from Update_receive_joined [OF ev this] id1 show ?thesis by simp
  qed
  from run fields next_late next_early once show ?thesis
    by blast
qed

text \<open>
  C3. An acceptance with an id of the table should join the session, mark the slot
  active at (100, 100) and make the next frame send an input update. It does the first
  two (\<open>accept_in_range\<close>). For the third, line 299 sets \<open>LastInputSend\<close> to minus
  the interval, under a comment that speaks of a very long time since the last update,
  where the initial value of the global is -100. A next frame whose clock reads 0 then
  finds \<^verbatim>\<open>now - LastInputSend\<close> equal to the interval, not greater, and sends nothing;
  neither does a frame at time \<open>1 / 2 ^ 60\<close>, whose sum with the interval rounds back
  to the interval. Here player 1 is accepted in a frame at time 0, and the frames that
  follow at these two times leave the state as it is, with nothing sent.
\<close>

theorem accept_then_frame_at_time_zero:
  "Update example_host (Finite 0) (ENET_EVENT_TYPE_RECEIVE [1, 1]) example_unjoined =
     Inr example_joined \<and>
   LocalPlayerId example_joined = 1 \<and>
   Update example_host (Finite 0) ENET_EVENT_TYPE_NONE example_joined = Inr example_joined \<and>
   Update example_host (Finite (1 / 2 ^ 60)) ENET_EVENT_TYPE_NONE example_joined =
     Inr example_joined \<and>
   sent example_joined = []"
  by (simp add: Update_defs Read_defs Player_defs command_defs example_defs time_rules Let_def)

subsection \<open>Ids that are not in the table\<close>

lemma accept_above_MAX_PLAYERS:
  assumes "LocalPlayerId s = - 1" and "uint b > int (MAX_PLAYERS h)"
  shows "Update_receive h (AcceptPlayer # b # rest) s = Inr s"
  using assms
  by (simp add: Update_receive_def Update_not_accepted_def Read_defs Let_def)

lemma accept_at_MAX_PLAYERS:
  assumes "table_ok h s" and "LocalPlayerId s = - 1" and "uint b = int (MAX_PLAYERS h)"
  shows "Update_receive h (AcceptPlayer # b # rest) s =
           Inl (PlayersIndexOutOfBounds (int (MAX_PLAYERS h)))"
  using assms
  by (simp add: Update_receive_def Update_not_accepted_def Read_defs Player_defs table_ok_def Let_def)

lemma Update_not_accepted_destroyed:
  "Update_not_accepted h packet command offset s = Inr (broke, s') \<Longrightarrow> destroyed s' = destroyed s"
  by (auto dest: Update_not_accepted_frame)

lemma Update_receive_destroyed:
  assumes "Update_receive h packet s = Inr s'"
  shows "destroyed s' =
     (if dataLength packet < 1 \<or>
         (LocalPlayerId s = - 1 \<and> packet ! 0 = AcceptPlayer \<and> uint (packet ! 1) > int (MAX_PLAYERS h))
      then destroyed s else destroyed s @ [packet])"
  using assms
  by (auto simp: Update_receive_def Update_not_accepted_def Update_accepted_def Read_defs Let_def
      enet_packet_destroy_def
      split: sum.splits prod.splits if_splits
      dest!: set_Player_Inr HandleAddPlayer_frame HandleRemovePlayer_frame HandleUpdatePlayer_frame
        only_Players_differ_fields)

lemma large_id_joined:
  assumes "LocalPlayerId s \<noteq> - 1" and "uint b \<ge> int (MAX_PLAYERS h)"
  shows "Update_receive h (command # b # rest) s = Inr (enet_packet_destroy (command # b # rest) s)"
  using assms
  by (simp add: Update_receive_def Update_accepted_def Handle_defs Read_defs Let_def)

lemma large_id_unjoined:
  assumes "LocalPlayerId s = - 1" and "uint b > int (MAX_PLAYERS h)"
  shows "\<exists>s'. Update_receive h (command # b # rest) s = Inr s' \<and> Players s' = Players s"
  using assms
  by (simp add: Update_receive_def Update_not_accepted_def Read_defs Let_def enet_packet_destroy_def)

text \<open>
  C1. An \<open>AcceptPlayer\<close> whose id is outside the table should be rejected, the
  session staying unjoined. The test of line 292 is \<^verbatim>\<open>LocalPlayerId > MAX_PLAYERS\<close>:
  an id above \<open>MAX_PLAYERS\<close> is rejected (\<open>accept_above_MAX_PLAYERS\<close>), the id
  \<open>MAX_PLAYERS\<close> itself is not (\<open>accept_at_MAX_PLAYERS\<close>). With eight players, the
  id 8 is kept as \<open>LocalPlayerId\<close> and line 302 then writes \<^verbatim>\<open>Players[8]\<close>, one slot
  past the table.
\<close>

theorem accept_boundary_id_not_rejected:
  "Update example_host (Finite 1) (ENET_EVENT_TYPE_RECEIVE [1, 8]) example_unjoined =
     Inl (PlayersIndexOutOfBounds 8)"
  by (simp add: Update_defs Read_defs Player_defs command_defs example_defs Let_def)

text \<open>
  C2. The packet of a receive event should be destroyed exactly once on every path.
  \<open>Update_receive_destroyed\<close> says where it is: on every path that returns, but for
  the two that leave the \<^verbatim>\<open>switch\<close> by a \<^verbatim>\<open>break\<close> ahead of
  \<^verbatim>\<open>enet_packet_destroy\<close>. An empty packet (line 275) and a rejected acceptance
  (line 295) leave the whole state, the list of destroyed packets included, as it was.
  The empty packet is indeed dropped without reading a command byte.
\<close>

theorem packet_not_destroyed:
  "Update example_host (Finite 1) (ENET_EVENT_TYPE_RECEIVE []) example_unjoined = Inr example_unjoined \<and>
   Update example_host (Finite 1) (ENET_EVENT_TYPE_RECEIVE [1, 9]) example_unjoined = Inr example_unjoined \<and>
   destroyed example_unjoined = []"
  by (simp add: Update_defs Read_defs Player_defs command_defs example_defs Let_def)

text \<open>
  C4. A command whose id is outside the table should leave the table alone. The three
  handlers of a joined session do (\<open>large_id_joined\<close>), and so does the acceptance
  of an id above \<open>MAX_PLAYERS\<close> (\<open>large_id_unjoined\<close>). The acceptance of the id
  \<open>MAX_PLAYERS\<close> does not: in a table of eight slots it marks slot 8 active, which is
  a write outside the array.
\<close>

theorem accept_boundary_id_writes_outside_table:
  "Update_not_accepted example_host [1, 8] AcceptPlayer 1 example_unjoined =
     Inl (PlayersIndexOutOfBounds 8) \<and>
   length (Players example_unjoined) = 8 \<and> MAX_PLAYERS example_host = 8"
  by (simp add: Update_defs Read_defs Player_defs command_defs example_defs Let_def)

subsection \<open>The handlers of a joined session\<close>

lemma handlers_ignore_large_ids:
  assumes "ReadByte packet offset = Inr (b, offset1)" and "uint b \<ge> int (MAX_PLAYERS h)"
  shows "HandleAddPlayer h packet offset s = Inr s"
    and "HandleRemovePlayer h packet offset s = Inr s"
    and "HandleUpdatePlayer h packet offset s = Inr s"
  using assms by (simp_all add: Handle_defs Let_def)

lemma handlers_in_table:
  assumes "table_ok h s"
  shows "HandleAddPlayer h packet offset s \<noteq> Inl (PlayersIndexOutOfBounds i)"
    and "HandleRemovePlayer h packet offset s \<noteq> Inl (PlayersIndexOutOfBounds i)"
    and "HandleUpdatePlayer h packet offset s \<noteq> Inl (PlayersIndexOutOfBounds i)"
  using assms
  by (auto simp: Handle_defs Player_defs Read_defs table_ok_def Let_def
      split: sum.splits prod.splits if_splits)

text \<open>
  C10. The handlers of a joined session only touch slots of the table. The id is
  \<open>uint\<close> of a byte, so it is not negative; an id of \<open>MAX_PLAYERS\<close> or more makes
  each handler return at once with the state as it was; and no handler, on any packet
  at any offset, ends in an access outside the table, the test of the active flag in
  \<open>HandleUpdatePlayer\<close> included, which is only reached for an id below
  \<open>MAX_PLAYERS\<close>.
\<close>

theorem handlers_index_in_table:
  assumes "table_ok h s"
  shows "HandleAddPlayer h packet offset s \<noteq> Inl (PlayersIndexOutOfBounds i) \<and>
         HandleRemovePlayer h packet offset s \<noteq> Inl (PlayersIndexOutOfBounds i) \<and>
         HandleUpdatePlayer h packet offset s \<noteq> Inl (PlayersIndexOutOfBounds i) \<and>
         (\<forall>b offset1. ReadByte packet offset = Inr (b, offset1) \<longrightarrow>
            0 \<le> uint b \<and>
            (uint b \<ge> int (MAX_PLAYERS h) \<longrightarrow>
               HandleAddPlayer h packet offset s = Inr s \<and>
               HandleRemovePlayer h packet offset s = Inr s \<and>
               HandleUpdatePlayer h packet offset s = Inr s))"
proof -
  have "HandleAddPlayer h packet offset s = Inr s \<and>
        HandleRemovePlayer h packet offset s = Inr s \<and>
        HandleUpdatePlayer h packet offset s = Inr s"
    if "ReadByte packet offset = Inr (b, offset1)" and "uint b \<ge> int (MAX_PLAYERS h)"
    for b offset1
    using handlers_ignore_large_ids [OF that] by simp
  moreover have "0 \<le> uint b" for b :: u8
    by simp
  ultimately show ?thesis
    using handlers_in_table [OF assms] by blast
qed

theorem handlers_index_in_table_witness:
  "table_ok example_host example_playing \<and>
   HandleAddPlayer example_host [2, 7, 44, 1, 200, 0] 1 example_playing \<noteq>
     Inl (PlayersIndexOutOfBounds 7) \<and>
   HandleRemovePlayer example_host [3, 8] 1 example_playing \<noteq> Inl (PlayersIndexOutOfBounds 8) \<and>
   HandleUpdatePlayer example_host [4, 255, 44, 1, 200, 0] 1 example_playing \<noteq>
     Inl (PlayersIndexOutOfBounds 255) \<and>
   ReadByte [3, 8] 1 = Inr (8, 2) \<and> uint (8 :: u8) \<ge> int (MAX_PLAYERS example_host) \<and>
   HandleAddPlayer example_host [3, 8] 1 example_playing = Inr example_playing \<and>
   HandleRemovePlayer example_host [3, 8] 1 example_playing = Inr example_playing \<and>
   HandleUpdatePlayer example_host [3, 8] 1 example_playing = Inr example_playing"
proof -
  have ok: "table_ok example_host example_playing"
    by (simp add: table_ok_def example_defs example_playing_def)
  have rd: "ReadByte [3, 8] 1 = Inr (8, 2)"
    by (simp add: Read_defs)
  have big: "uint (8 :: u8) \<ge> int (MAX_PLAYERS example_host)"
    by (simp add: example_defs example_playing_def)
  show ?thesis
    using handlers_index_in_table [OF ok, of "[2, 7, 44, 1, 200, 0]" 1 7]
      handlers_index_in_table [OF ok, of "[3, 8]" 1 8]
      handlers_index_in_table [OF ok, of "[4, 255, 44, 1, 200, 0]" 1 255]
      ok rd big
    by blast
qed

subsection \<open>Moving the local player\<close>







text \<open>
  With a local id that is not a slot of the table, which the acceptance of the id
  \<open>MAX_PLAYERS\<close> leaves behind, line 380 reads outside the array.
\<close>

lemma UpdateLocalPlayer_outside_table:
  "int (length (Players s)) \<le> LocalPlayerId s \<Longrightarrow>
   UpdateLocalPlayer h movementDelta s = Inl (PlayersIndexOutOfBounds (LocalPlayerId s))"
  by (simp add: UpdateLocalPlayer_def set_Player_def)




end
